theory Spec2Isabelle
  imports Main "HOL-Library.Word"
begin

section \<open>Strings and numbers of the host language\<close>

text \<open>
  A JavaScript string is a sequence of 16-bit code units. ASCII literals of the source are
  written through \<open>js\<close>; the Turkish letters of the source are given by their code units
  (\<open>0xF6\<close> o-diaeresis, \<open>0xFC\<close> u-diaeresis, \<open>0xE7\<close> c-cedilla, \<open>0x15F\<close> s-cedilla,
  \<open>0xD6\<close> capital O-diaeresis, \<open>0x131\<close> dotless i).
\<close>

type_synonym code_unit = "16 word"
type_synonym jsstring = "code_unit list"

definition js :: "string \<Rightarrow> jsstring" where
  "js s = map of_char s"

text \<open>
  \<open>String.prototype.trim\<close> removes WhiteSpace and LineTerminator code points from both ends
  (ECMAScript: TAB, VT, FF, SP, NBSP, ZWNBSP, the Unicode space separators, LF, CR, LS, PS).
\<close>

definition is_white_space :: "code_unit \<Rightarrow> bool" where
  "is_white_space c =
     (c = 0x9 \<or> c = 0xA \<or> c = 0xB \<or> c = 0xC \<or> c = 0xD \<or> c = 0x20 \<or> c = 0xA0 \<or>
      c = 0x1680 \<or> (0x2000 \<le> c \<and> c \<le> 0x200A) \<or> c = 0x2028 \<or> c = 0x2029 \<or>
      c = 0x202F \<or> c = 0x205F \<or> c = 0x3000 \<or> c = 0xFEFF)"

definition trim :: "jsstring \<Rightarrow> jsstring" where
  "trim s = rev (dropWhile is_white_space (rev (dropWhile is_white_space s)))"

definition startsWith :: "jsstring \<Rightarrow> jsstring \<Rightarrow> bool" where
  "startsWith s p = (take (length p) s = p)"

text \<open>\<open>s.substring(n)\<close> for \<open>0 \<le> n\<close>.\<close>

definition substring :: "jsstring \<Rightarrow> nat \<Rightarrow> jsstring" where
  "substring s n = drop n s"

text \<open>
  A value of type \<open>string | null\<close>: \<open>None\<close> is \<open>null\<close> (or \<open>undefined\<close>). Such a value is
  truthy when it is a string that is not empty.
\<close>

fun truthy :: "jsstring option \<Rightarrow> bool" where
  "truthy None = False"
| "truthy (Some s) = (s \<noteq> [])"

text \<open>
  The Number values this module meets are the results of \<open>parseInt\<close>: NaN, or the double
  nearest to an integer. \<open>Integer n\<close> stands for that double. The module looks at such a value
  in two ways only: it compares it with \<open>null\<close>, and it converts it to a string inside a
  template literal. All integers of magnitude up to \<open>2 ^ 53\<close> are doubles themselves and print
  as their decimal digits; how a larger value prints (after rounding, in exponent notation from
  \<open>1e21\<close> on) is left to the engine, as the field \<open>number_text\<close> of the globals below.
\<close>

datatype jsnumber = NaN | Integer int

fun digits :: "nat \<Rightarrow> jsstring" where
  "digits n = (if n < 10 then [of_nat (48 + n)] else digits (n div 10) @ [of_nat (48 + n mod 10)])"

declare digits.simps [simp del]

section \<open>Platform functions\<close>

text \<open>
  The module calls four functions of its host: \<open>new URLSearchParams\<close> with its \<open>get\<close>,
  \<open>decodeURIComponent\<close> and \<open>parseInt\<close>. They are written out here after their standards
  (WHATWG URL and Encoding, ECMAScript). Bytes are 8-bit words; code points are natural numbers.
\<close>

type_synonym byte = "8 word"

text \<open>
  The exceptions that can leave the module: \<open>decodeURIComponent\<close> throws URIError, reading a
  global variable that no script has declared throws ReferenceError, and \<open>querySelector\<close>
  throws SyntaxError (a DOMException) for a selector it cannot parse.
\<close>

datatype error = URIError | ReferenceError | SyntaxError

definition hex_digit :: "'a::len word \<Rightarrow> nat option" where
  "hex_digit c =
     (if 0x30 \<le> c \<and> c \<le> 0x39 then Some (unat c - 0x30)
      else if 0x41 \<le> c \<and> c \<le> 0x46 then Some (unat c - 0x41 + 10)
      else if 0x61 \<le> c \<and> c \<le> 0x66 then Some (unat c - 0x61 + 10)
      else None)"

subsection \<open>UTF-16 and UTF-8\<close>

definition UTF16EncodeCodePoint :: "nat \<Rightarrow> jsstring" where
  "UTF16EncodeCodePoint cp =
     (if cp \<le> 0xFFFF then [of_nat cp]
      else [of_nat ((cp - 0x10000) div 0x400 + 0xD800), of_nat ((cp - 0x10000) mod 0x400 + 0xDC00)])"

definition is_lead :: "code_unit \<Rightarrow> bool" where
  "is_lead c = (0xD800 \<le> c \<and> c \<le> 0xDBFF)"

definition is_trail :: "code_unit \<Rightarrow> bool" where
  "is_trail c = (0xDC00 \<le> c \<and> c \<le> 0xDFFF)"

text \<open>The scalar values of a string; a surrogate without its partner becomes U+FFFD.\<close>

fun scalar_values :: "jsstring \<Rightarrow> nat list" where
  "scalar_values [] = []"
| "scalar_values [c] = [if is_lead c \<or> is_trail c then 0xFFFD else unat c]"
| "scalar_values (c # d # cs) =
     (if is_lead c \<and> is_trail d
      then (0x10000 + (unat c - 0xD800) * 0x400 + (unat d - 0xDC00)) # scalar_values cs
      else (if is_lead c \<or> is_trail c then 0xFFFD else unat c) # scalar_values (d # cs))"

definition utf8_encode_scalar :: "nat \<Rightarrow> byte list" where
  "utf8_encode_scalar cp =
     (if cp < 0x80 then [of_nat cp]
      else if cp < 0x800 then [of_nat (0xC0 + cp div 0x40), of_nat (0x80 + cp mod 0x40)]
      else if cp < 0x10000
        then [of_nat (0xE0 + cp div 0x1000), of_nat (0x80 + cp div 0x40 mod 0x40),
              of_nat (0x80 + cp mod 0x40)]
      else [of_nat (0xF0 + cp div 0x40000), of_nat (0x80 + cp div 0x1000 mod 0x40),
            of_nat (0x80 + cp div 0x40 mod 0x40), of_nat (0x80 + cp mod 0x40)])"

definition utf8_encode :: "jsstring \<Rightarrow> byte list" where
  "utf8_encode s = concat (map utf8_encode_scalar (scalar_values s))"

text \<open>
  The UTF-8 decoder of the Encoding standard, in replacement mode: \<open>needed\<close> counts the
  continuation bytes still expected, \<open>cp\<close> is the code point so far, \<open>lower\<close> and \<open>upper\<close>
  bound the next continuation byte. A byte that cannot continue a sequence yields U+FFFD and is
  read again as the start of a new one.
\<close>

function utf8_decode :: "nat \<Rightarrow> nat \<Rightarrow> byte \<Rightarrow> byte \<Rightarrow> byte list \<Rightarrow> nat list" where
  "utf8_decode needed cp lower upper [] = (if needed = 0 then [] else [0xFFFD])"
| "utf8_decode needed cp lower upper (b # bs) =
     (if needed = 0 then
        (if b \<le> 0x7F then unat b # utf8_decode 0 0 0x80 0xBF bs
         else if 0xC2 \<le> b \<and> b \<le> 0xDF then utf8_decode 1 (unat b - 0xC0) 0x80 0xBF bs
         else if 0xE0 \<le> b \<and> b \<le> 0xEF
           then utf8_decode 2 (unat b - 0xE0) (if b = 0xE0 then 0xA0 else 0x80)
                  (if b = 0xED then 0x9F else 0xBF) bs
         else if 0xF0 \<le> b \<and> b \<le> 0xF4
           then utf8_decode 3 (unat b - 0xF0) (if b = 0xF0 then 0x90 else 0x80)
                  (if b = 0xF4 then 0x8F else 0xBF) bs
         else 0xFFFD # utf8_decode 0 0 0x80 0xBF bs)
      else if b < lower \<or> upper < b then 0xFFFD # utf8_decode 0 0 0x80 0xBF (b # bs)
      else if needed = 1 then (cp * 0x40 + (unat b - 0x80)) # utf8_decode 0 0 0x80 0xBF bs
      else utf8_decode (needed - 1) (cp * 0x40 + (unat b - 0x80)) 0x80 0xBF bs)"
  by pat_completeness auto
termination
  by (relation "measure (\<lambda>(needed, cp, lower, upper, bs). 2 * length bs + (if needed = 0 then 0 else 1))")
    auto

definition utf8_decode_without_BOM :: "byte list \<Rightarrow> jsstring" where
  "utf8_decode_without_BOM bs = concat (map UTF16EncodeCodePoint (utf8_decode 0 0 0x80 0xBF bs))"

subsection \<open>URLSearchParams\<close>

fun split_on :: "'a \<Rightarrow> 'a list \<Rightarrow> 'a list list" where
  "split_on d [] = [[]]"
| "split_on d (x # xs) =
     (if x = d then [] # split_on d xs
      else (case split_on d xs of [] \<Rightarrow> [[x]] | y # ys \<Rightarrow> (x # y) # ys))"

text \<open>Percent-decoding of a byte sequence: a \<open>%\<close> not followed by two hex digits stays.\<close>

fun percent_decode :: "byte list \<Rightarrow> byte list" where
  "percent_decode (p # a # b # rest) =
     (if p = 0x25 then
        (case hex_digit a of
           None \<Rightarrow> p # percent_decode (a # b # rest)
         | Some x \<Rightarrow>
             (case hex_digit b of
                None \<Rightarrow> p # percent_decode (a # b # rest)
              | Some y \<Rightarrow> of_nat (16 * x + y) # percent_decode rest))
      else p # percent_decode (a # b # rest))"
| "percent_decode (p # rest) = p # percent_decode rest"
| "percent_decode [] = []"

definition urlencoded_string :: "byte list \<Rightarrow> jsstring" where
  "urlencoded_string bs =
     utf8_decode_without_BOM (percent_decode (map (\<lambda>b. if b = 0x2B then 0x20 else b) bs))"

text \<open>One \<open>name=value\<close> sequence of a query, split at its first \<open>=\<close>.\<close>

definition urlencoded_pair :: "byte list \<Rightarrow> jsstring \<times> jsstring" where
  "urlencoded_pair bs =
     (urlencoded_string (takeWhile (\<lambda>b. b \<noteq> 0x3D) bs),
      urlencoded_string (drop 1 (dropWhile (\<lambda>b. b \<noteq> 0x3D) bs)))"

text \<open>
  \<open>new URLSearchParams(init)\<close> for a string: a leading \<open>?\<close> is dropped, the rest is split at
  \<open>&\<close>, empty sequences are skipped. The object is its list of name-value pairs.
\<close>

definition URLSearchParams :: "jsstring \<Rightarrow> (jsstring \<times> jsstring) list" where
  "URLSearchParams init =
     (let query = (case init of c # cs \<Rightarrow> if c = 0x3F then cs else init | [] \<Rightarrow> init)
      in map urlencoded_pair (filter (\<lambda>bs. bs \<noteq> []) (split_on 0x26 (utf8_encode query))))"

text \<open>\<open>params.get(name)\<close>: the value of the first pair with that name, or \<open>null\<close>.\<close>

definition URLSearchParams_get :: "(jsstring \<times> jsstring) list \<Rightarrow> jsstring \<Rightarrow> jsstring option" where
  "URLSearchParams_get list name = map_of list name"

subsection \<open>decodeURIComponent\<close>

text \<open>An escape \<open>%XX\<close> at the front of a string: its octet and what follows it.\<close>

fun escape_octet :: "jsstring \<Rightarrow> (nat \<times> jsstring) option" where
  "escape_octet (p # a # b # rest) =
     (if p = 0x25 then
        (case hex_digit a of
           None \<Rightarrow> None
         | Some x \<Rightarrow> (case hex_digit b of None \<Rightarrow> None | Some y \<Rightarrow> Some (16 * x + y, rest)))
      else None)"
| "escape_octet _ = None"

fun continuation_octets :: "nat \<Rightarrow> jsstring \<Rightarrow> (nat list \<times> jsstring) option" where
  "continuation_octets 0 s = Some ([], s)"
| "continuation_octets (Suc j) s =
     (case escape_octet s of
        None \<Rightarrow> None
      | Some (b, rest) \<Rightarrow>
          (case continuation_octets j rest of
             None \<Rightarrow> None
           | Some (bs, rest') \<Rightarrow> Some (b # bs, rest')))"

text \<open>The number of leading 1 bits of an octet.\<close>

definition leading_ones :: "nat \<Rightarrow> nat" where
  "leading_ones B =
     (if B < 0x80 then 0 else if B < 0xC0 then 1 else if B < 0xE0 then 2 else if B < 0xF0 then 3
      else if B < 0xF8 then 4 else 5)"

text \<open>
  The code point of a UTF-8 sequence of \<open>n\<close> octets (\<open>2 \<le> n \<le> 4\<close>), if the sequence is valid:
  continuation octets in \<open>80..BF\<close>, shortest form, no surrogate, at most U+10FFFF.
\<close>

definition utf8_code_point :: "nat \<Rightarrow> nat \<Rightarrow> nat list \<Rightarrow> nat option" where
  "utf8_code_point n B octets =
     (let V = fold (\<lambda>b v. v * 0x40 + (b - 0x80)) octets (B mod 2 ^ (7 - n));
          least = (if n = 2 then 0x80 else if n = 3 then 0x800 else 0x10000)
      in if list_all (\<lambda>b. 0x80 \<le> b \<and> b \<le> 0xBF) octets \<and> least \<le> V \<and> V \<le> 0x10FFFF
            \<and> \<not> (0xD800 \<le> V \<and> V \<le> 0xDFFF)
         then Some V else None)"

text \<open>
  The abstract operation Decode of ECMAScript with an empty set of preserved escapes: an escape
  that is cut short, is not hexadecimal or does not belong to a valid UTF-8 sequence throws
  URIError.
\<close>

function Decode :: "jsstring \<Rightarrow> error + jsstring" where
  "Decode [] = Inr []"
| "Decode (c # cs) =
     (if c \<noteq> 0x25 then (case Decode cs of Inl e \<Rightarrow> Inl e | Inr r \<Rightarrow> Inr (c # r))
      else
        (case escape_octet (c # cs) of
           None \<Rightarrow> Inl URIError
         | Some (B, rest) \<Rightarrow>
             if leading_ones B = 0
             then (case Decode rest of Inl e \<Rightarrow> Inl e | Inr r \<Rightarrow> Inr (of_nat B # r))
             else if leading_ones B = 1 \<or> 4 < leading_ones B then Inl URIError
             else
               (case continuation_octets (leading_ones B - 1) rest of
                  None \<Rightarrow> Inl URIError
                | Some (octets, rest') \<Rightarrow>
                    (case utf8_code_point (leading_ones B) B octets of
                       None \<Rightarrow> Inl URIError
                     | Some V \<Rightarrow>
                         (case Decode rest' of
                            Inl e \<Rightarrow> Inl e
                          | Inr r \<Rightarrow> Inr (UTF16EncodeCodePoint V @ r))))))"
  by pat_completeness auto
termination
proof -
  have esc: "length rest < length s" if "escape_octet s = Some (B, rest)" for s B rest
    using that by (induction s rule: escape_octet.induct) (auto split: if_splits option.splits)
  have cont: "length rest \<le> length s" if "continuation_octets j s = Some (bs, rest)"
    for j s bs rest
    using that
  proof (induction j arbitrary: s bs rest)
    case 0
    then show ?case by simp
  next
    case (Suc j)
    then show ?case by (fastforce split: option.splits dest: esc)
  qed
  show ?thesis
    by (relation "measure length") (auto dest!: esc cont)
qed

definition decodeURIComponent :: "jsstring \<Rightarrow> error + jsstring" where
  "decodeURIComponent encodedURIComponent = Decode encodedURIComponent"

subsection \<open>parseInt\<close>

definition is_digit :: "code_unit \<Rightarrow> bool" where
  "is_digit c = (0x30 \<le> c \<and> c \<le> 0x39)"

definition digits_value :: "jsstring \<Rightarrow> nat" where
  "digits_value Z = fold (\<lambda>c v. 10 * v + (unat c - 0x30)) Z 0"

text \<open>
  \<open>parseInt(string, 10)\<close>: leading white space is skipped, a sign is read, then the longest
  run of decimal digits; without a digit the result is NaN.
\<close>

definition parseInt10 :: "jsstring \<Rightarrow> jsnumber" where
  "parseInt10 string =
     (let S = dropWhile is_white_space string;
          sign = (case S of c # cs \<Rightarrow> if c = 0x2D then - 1 else 1 | [] \<Rightarrow> 1);
          S' = (case S of c # cs \<Rightarrow> if c = 0x2B \<or> c = 0x2D then cs else S | [] \<Rightarrow> S);
          Z = takeWhile is_digit S'
      in if Z = [] then NaN else Integer (sign * int (digits_value Z)))"

section \<open>Configuration and data model\<close>

record default_meta =
  title :: jsstring
  description :: jsstring
  image' :: jsstring
  siteName :: jsstring
  type' :: jsstring
  twitterCard :: jsstring

definition DEFAULT_META :: default_meta where
  "DEFAULT_META = \<lparr>
     title = js ''ZebzeManga - T'' @ [0xFC] @ js ''rk'' @ [0xE7] @ js ''e Manga Oku'',
     description = js ''ZebzeManga'' @ [0x27] @ js ''da en yeni manga ve webtoon serilerini T''
       @ [0xFC] @ js ''rk'' @ [0xE7] @ js ''e okuyun. G'' @ [0xFC] @ js ''ncel b'' @ [0xF6]
       @ js ''l'' @ [0xFC] @ js ''mler ve geni'' @ [0x15F] @ js '' ar'' @ [0x15F] @ js ''iv.'',
     image' = js ''https://zebzetoon.vercel.app/logo/zlogo.png'',
     siteName = js ''Zebze Toon'',
     type' = js ''website'',
     twitterCard = js ''summary_large_image'' \<rparr>"

text \<open>The object returned by \<open>parseURLParameters\<close>: \<open>seri\<close> (string | null), \<open>bolum\<close> (number | null).\<close>

record params =
  seri :: "jsstring option"
  bolum :: "jsnumber option"

text \<open>The \<open>meta\<close> object of a catalog entry; a field is \<open>None\<close> when the object does not have it.\<close>

record seriesData =
  kapak :: "jsstring option"
  ozet :: "jsstring option"
  yazar :: "jsstring option"
  banner :: "jsstring option"

text \<open>
  An entry of the catalog. Of an entry the module reads the property \<open>meta\<close> only; \<open>None\<close>
  stands for an entry without it (or with a falsy one).
\<close>

record series =
  meta :: "seriesData option"

text \<open>
  A value the global variable \<open>ARSIV\<close> can hold: nothing yet, a primitive, a function, or an
  object with its own enumerable properties in order. A property looked up by a name the
  object does not have is \<open>undefined\<close>; what an object inherits from \<open>Object.prototype\<close> has
  no \<open>meta\<close> and so reads like no entry.
\<close>

datatype catalog =
    Undefined
  | Null
  | Boolean bool
  | Number jsnumber
  | String jsstring
  | Function
  | Object "(jsstring \<times> series) list"

text \<open>ToBoolean, \<open>typeof\<close>, \<open>Object.keys\<close> and property access \<open>ARSIV[name]\<close> on such a value.\<close>

fun ToBoolean :: "catalog \<Rightarrow> bool" where
  "ToBoolean Undefined = False"
| "ToBoolean Null = False"
| "ToBoolean (Boolean b) = b"
| "ToBoolean (Number NaN) = False"
| "ToBoolean (Number (Integer n)) = (n \<noteq> 0)"
| "ToBoolean (String s) = (s \<noteq> [])"
| "ToBoolean Function = True"
| "ToBoolean (Object ps) = True"

fun typeof :: "catalog \<Rightarrow> jsstring" where
  "typeof Undefined = js ''undefined''"
| "typeof Null = js ''object''"
| "typeof (Boolean b) = js ''boolean''"
| "typeof (Number x) = js ''number''"
| "typeof (String s) = js ''string''"
| "typeof Function = js ''function''"
| "typeof (Object ps) = js ''object''"

fun Object_keys :: "catalog \<Rightarrow> jsstring list" where
  "Object_keys (Object ps) = map fst ps"
| "Object_keys _ = []"

fun property_of :: "catalog \<Rightarrow> jsstring \<Rightarrow> series option" where
  "property_of (Object ps) k = map_of ps k"
| "property_of _ k = None"

text \<open>A tag definition, \<open>{ property, content }\<close>.\<close>

record tag =
  property :: jsstring
  content :: jsstring

text \<open>
  What the module reads from its surroundings: the location of the window, the catalog, and
  the engine's conversion of large Numbers to strings. The module does not declare \<open>ARSIV\<close>
  itself: the variable is \<open>None\<close> when no script of the page has declared it, and \<open>Some\<close> of its
  value otherwise.
\<close>

record globals =
  location_search :: jsstring
  location_href :: jsstring
  ARSIV :: "catalog option"
  number_text :: "int \<Rightarrow> jsstring"

text \<open>
  The document, as far as the module sees it: its \<open>meta\<close> elements in tree order, each with
  the attributes \<open>property\<close>, \<open>name\<close> and \<open>content\<close> it may carry. They are the children of
  the head, where HTML puts them, so that an element appended to the head comes last. An
  element is known by its place in the list.
\<close>

record element =
  attr_property :: "jsstring option"
  attr_name :: "jsstring option"
  attr_content :: "jsstring option"

type_synonym document = "element list"

datatype attribute = Property | Name | Content

fun setAttribute :: "attribute \<Rightarrow> jsstring \<Rightarrow> element \<Rightarrow> element" where
  "setAttribute Property v e = e\<lparr>attr_property := Some v\<rparr>"
| "setAttribute Name v e = e\<lparr>attr_name := Some v\<rparr>"
| "setAttribute Content v e = e\<lparr>attr_content := Some v\<rparr>"

definition createElement_meta :: element where
  "createElement_meta = \<lparr>attr_property = None, attr_name = None, attr_content = None\<rparr>"

text \<open>
  The two kinds of selector the module asks for: \<open>meta[property="v"]\<close> and \<open>meta[name="v"]\<close>
  match the \<open>meta\<close> elements whose attribute is the string \<open>v\<close>, compared code unit by code
  unit.
\<close>

datatype selector = meta_property jsstring | meta_name jsstring

fun matches :: "selector \<Rightarrow> element \<Rightarrow> bool" where
  "matches (meta_property k) e = (attr_property e = Some k)"
| "matches (meta_name k) e = (attr_name e = Some k)"

text \<open>\<open>document.querySelector\<close>: the place of the first matching element, or \<open>null\<close>.\<close>

fun querySelector :: "selector \<Rightarrow> document \<Rightarrow> nat option" where
  "querySelector sel [] = None"
| "querySelector sel (e # es) =
     (if matches sel e then Some 0 else map_option Suc (querySelector sel es))"

text \<open>
  The module writes the selector as text, with the key pasted between double quotes as it
  is: \<open>meta[property="${property}"]\<close>. So the string \<open>v\<close> of the selector is what a CSS parser
  reads from the key as a string token (CSS Syntax, consume a string token): a backslash
  starts an escape (up to six hex digits and one white space after them, or the next code
  point itself), a backslash before a line break joins the lines, a line break that is not
  escaped makes the token a bad string, a quote that is not escaped ends the string, and the
  end of the text ends it too. The parser reads NUL and a surrogate without its partner as
  U+FFFD, and CR LF as one line break.
\<close>

definition is_newline :: "code_unit \<Rightarrow> bool" where
  "is_newline c = (c = 0xA \<or> c = 0xC \<or> c = 0xD)"

text \<open>The text after the line break at its front.\<close>

fun skip_newline :: "jsstring \<Rightarrow> jsstring" where
  "skip_newline (c # d # r) = (if c = 0xD \<and> d = 0xA then r else d # r)"
| "skip_newline [c] = []"
| "skip_newline [] = []"

text \<open>The text after one white space at its front, if there is one.\<close>

fun skip_whitespace :: "jsstring \<Rightarrow> jsstring" where
  "skip_whitespace [] = []"
| "skip_whitespace (c # r) =
     (if is_newline c then skip_newline (c # r)
      else if c = 0x9 \<or> c = 0x20 then r
      else c # r)"

text \<open>The first code point of a text as the parser reads it, and the text after it.\<close>

fun input_code_point :: "jsstring \<Rightarrow> jsstring \<times> jsstring" where
  "input_code_point [] = ([], [])"
| "input_code_point [c] = (if c = 0 \<or> is_lead c \<or> is_trail c then [0xFFFD] else [c], [])"
| "input_code_point (c # d # r) =
     (if is_lead c \<and> is_trail d then ([c, d], r)
      else (if c = 0 \<or> is_lead c \<or> is_trail c then [0xFFFD] else [c], d # r))"

definition hex_value :: "jsstring \<Rightarrow> nat" where
  "hex_value hs = fold (\<lambda>c v. 16 * v + (case hex_digit c of None \<Rightarrow> 0 | Some x \<Rightarrow> x)) hs 0"

text \<open>
  The escaped code point at the front of a text (the text after a backslash, not begun by a
  line break), and the text after the escape.
\<close>

definition consume_escaped :: "jsstring \<Rightarrow> jsstring \<times> jsstring" where
  "consume_escaped s =
     (let hs = takeWhile (\<lambda>c. hex_digit c \<noteq> None) (take 6 s)
      in if hs = [] then input_code_point s
         else
           (UTF16EncodeCodePoint
              (if hex_value hs = 0 \<or> (0xD800 \<le> hex_value hs \<and> hex_value hs \<le> 0xDFFF)
                  \<or> 0x10FFFF < hex_value hs
               then 0xFFFD else hex_value hs),
            skip_whitespace (drop (length hs) s)))"

text \<open>
  The string token read from a text that follows an opening double quote: \<open>None\<close> for a bad
  string; else the string, with the text after the closing quote, or \<open>None\<close> in its place
  when the text ended before a closing quote.
\<close>

function consume_string :: "jsstring \<Rightarrow> (jsstring \<times> jsstring option) option" where
  "consume_string [] = Some ([], None)"
| "consume_string (c # cs) =
     (if c = 0x22 then Some ([], Some cs)
      else if is_newline c then None
      else if c = 0x5C then
        (case cs of
           [] \<Rightarrow> Some ([], None)
         | d # ds \<Rightarrow>
             if is_newline d then consume_string (skip_newline cs)
             else
               (case consume_string (snd (consume_escaped cs)) of
                  None \<Rightarrow> None
                | Some (v, rest) \<Rightarrow> Some (fst (consume_escaped cs) @ v, rest)))
      else
        (case consume_string (snd (input_code_point (c # cs))) of
           None \<Rightarrow> None
         | Some (v, rest) \<Rightarrow> Some (fst (input_code_point (c # cs)) @ v, rest)))"
  by pat_completeness auto
termination
proof -
  have nl: "length (skip_newline s) \<le> length s" for s
    by (induction s rule: skip_newline.induct) simp_all
  have ws: "length (skip_whitespace s) \<le> length s" for s
    using nl [of s] by (cases s) simp_all
  have cp: "length (snd (input_code_point s)) < length s" if "s \<noteq> []" for s
    using that by (induction s rule: input_code_point.induct) simp_all
  have esc: "length (snd (consume_escaped s)) \<le> length s" for s
  proof (cases "s = []")
    case True
    then show ?thesis by (simp add: consume_escaped_def)
  next
    case False
    have "length (skip_whitespace (drop n s)) \<le> length s" for n
      using ws [of "drop n s"] by simp
    with cp [OF False] show ?thesis
      by (simp add: consume_escaped_def Let_def)
  qed
  have cp': "length (snd (input_code_point (c # cs))) \<le> length cs" for c cs
    using cp [of "c # cs"] by simp
  have nl': "length (skip_newline (d # ds)) \<le> Suc (length ds)" for d ds
    using nl [of "d # ds"] by simp
  have esc': "length (snd (consume_escaped (d # ds))) \<le> Suc (length ds)" for d ds
    using esc [of "d # ds"] by simp
  show ?thesis
    by (relation "measure length") (simp_all add: less_Suc_eq_le nl' esc' cp')
qed

text \<open>
  The string a key stands for in the selector text \<open>meta[attr="KEY"]\<close>. After the pasted key
  the text goes on with the closing quote and bracket. The selector is well formed when the
  string token ends at a quote with the closing bracket as all that follows, or when the text
  ends inside the string (the parser closes string and bracket there). With a bad string, or
  with more text between the end of the string and the bracket, \<open>querySelector\<close> throws
  SyntaxError. (A key that closes the bracket itself after a quote and then opens further
  selector text is not parsed further here: it counts as malformed.)
\<close>

definition selector_string :: "jsstring \<Rightarrow> error + jsstring" where
  "selector_string key =
     (case consume_string (key @ [0x22, 0x5D]) of
        None \<Rightarrow> Inl SyntaxError
      | Some (v, None) \<Rightarrow> Inr v
      | Some (v, Some rest) \<Rightarrow> if rest = [0x5D] then Inr v else Inl SyntaxError)"

text \<open>How a call ends: it returns, or an exception leaves it.\<close>

datatype completion = Returned | Thrown error

text \<open>The conversion a template literal applies to a Number.\<close>

fun NumberToString :: "globals \<Rightarrow> jsnumber \<Rightarrow> jsstring" where
  "NumberToString g NaN = js ''NaN''"
| "NumberToString g (Integer n) =
     (if \<bar>n\<bar> \<le> 2 ^ 53
      then (if n < 0 then js ''-'' @ digits (nat (- n)) else digits (nat n))
      else number_text g n)"

text \<open>The conversion a template literal applies to \<open>params.seri\<close> and to \<open>params.bolum\<close>.\<close>

fun seri_text :: "jsstring option \<Rightarrow> jsstring" where
  "seri_text None = js ''null''"
| "seri_text (Some s) = s"

fun bolum_text :: "globals \<Rightarrow> jsnumber option \<Rightarrow> jsstring" where
  "bolum_text g None = js ''null''"
| "bolum_text g (Some x) = NumberToString g x"

section \<open>Parameter extractor\<close>

definition parseURLParameters :: "globals \<Rightarrow> error + params" where
  "parseURLParameters g =
     (let urlParams = URLSearchParams (location_search g);
          seriParam = URLSearchParams_get urlParams (js ''seri'');
          bolumParam = URLSearchParams_get urlParams (js ''bolum'')
      in case (case seriParam of
                 None \<Rightarrow> Inr None
               | Some v \<Rightarrow>
                   if v \<noteq> [] then map_sum id Some (decodeURIComponent v) else Inr None) of
           Inl e \<Rightarrow> Inl e
         | Inr seri_value \<Rightarrow>
             Inr \<lparr>seri = seri_value,
                  bolum = (case bolumParam of
                             None \<Rightarrow> None
                           | Some v \<Rightarrow> if v \<noteq> [] then Some (parseInt10 v) else None)\<rparr>)"

section \<open>Catalog resolver\<close>

text \<open>
  The function reads the global variable \<open>ARSIV\<close>. Its first test, \<open>!ARSIV\<close>, evaluates the
  variable, which throws ReferenceError when the variable has not been declared; the
  \<open>typeof\<close> test, which would not throw, comes after it.
\<close>

definition getSeriesData :: "catalog option \<Rightarrow> jsstring \<Rightarrow> error + seriesData option" where
  "getSeriesData binding seriesName =
     (case binding of
        None \<Rightarrow> Inl ReferenceError
      | Some arsiv \<Rightarrow>
          if \<not> ToBoolean arsiv \<or> typeof arsiv \<noteq> js ''object'' \<or> length (Object_keys arsiv) = 0
          then Inr None
          else
            (case property_of arsiv seriesName of
               None \<Rightarrow> Inr None
             | Some s \<Rightarrow> (case meta s of None \<Rightarrow> Inr None | Some m \<Rightarrow> Inr (Some m))))"

section \<open>Tag applier\<close>

text \<open>
  Both selectors are built from the same key, so both stand for the same string or both are
  malformed. An exception of \<open>querySelector\<close> leaves \<open>setMetaTag\<close> before it has changed the
  document.
\<close>

definition setMetaTag :: "jsstring \<Rightarrow> jsstring \<Rightarrow> document \<Rightarrow> error + document" where
  "setMetaTag property_key content_value doc =
     (case map_sum id meta_property (selector_string property_key) of
        Inl e \<Rightarrow> Inl e
      | Inr selector1 \<Rightarrow>
          (case (case querySelector selector1 doc of
                   Some i \<Rightarrow> Inr (Some i)
                 | None \<Rightarrow>
                     (case map_sum id meta_name (selector_string property_key) of
                        Inl e \<Rightarrow> Inl e
                      | Inr selector2 \<Rightarrow> Inr (querySelector selector2 doc))) of
             Inl e \<Rightarrow> Inl e
           | Inr tag \<Rightarrow>
               Inr (case tag of
                      Some i \<Rightarrow> doc[i := setAttribute Content content_value (doc ! i)]
                    | None \<Rightarrow>
                        doc @ [setAttribute Content content_value
                                 (if startsWith property_key (js ''og:'')
                                  then setAttribute Property property_key createElement_meta
                                  else setAttribute Name property_key createElement_meta)])))"

text \<open>
  \<open>forEach\<close> applies the definitions in order; an exception ends it and leaves the document
  with the definitions applied so far.
\<close>

fun setMetaTags :: "tag list \<Rightarrow> document \<Rightarrow> completion \<times> document" where
  "setMetaTags [] doc = (Returned, doc)"
| "setMetaTags (t # ts) doc =
     (case setMetaTag (property t) (content t) doc of
        Inl e \<Rightarrow> (Thrown e, doc)
      | Inr doc' \<Rightarrow> setMetaTags ts doc')"

section \<open>URL normalizer\<close>

definition convertToAbsoluteURL :: "jsstring option \<Rightarrow> jsstring" where
  "convertToAbsoluteURL url =
     (case url of
        None \<Rightarrow> image' DEFAULT_META
      | Some u \<Rightarrow>
          if u = [] \<or> trim u = [] then image' DEFAULT_META
          else if startsWith u (js ''http://'') \<or> startsWith u (js ''https://'') then u
          else
            let cleanUrl = (if startsWith u (js ''/'') then substring u 1 else u)
            in js ''https://zebzetoon.vercel.app/'' @ cleanUrl)"

section \<open>Content synthesizer\<close>

definition generateOpenGraphContent :: "globals \<Rightarrow> params \<Rightarrow> seriesData option \<Rightarrow> tag list" where
  "generateOpenGraphContent g p seriesData =
     (let title_text =
            (if truthy (seri p) \<and> bolum p \<noteq> None
             then seri_text (seri p) @ js '' - B'' @ [0xF6] @ js ''l'' @ [0xFC] @ js ''m ''
                    @ bolum_text g (bolum p)
             else if truthy (seri p) then seri_text (seri p)
             else title DEFAULT_META);
          description_text =
            (case seriesData of
               None \<Rightarrow> description DEFAULT_META
             | Some d \<Rightarrow>
                 (case ozet d of
                    None \<Rightarrow> description DEFAULT_META
                  | Some s \<Rightarrow> if s \<noteq> [] then s else description DEFAULT_META));
          imageUrl =
            (case seriesData of
               None \<Rightarrow> image' DEFAULT_META
             | Some d \<Rightarrow>
                 if truthy (kapak d) then convertToAbsoluteURL (kapak d)
                 else image' DEFAULT_META);
          pageUrl = location_href g
      in [ \<lparr>property = js ''og:title'', content = title_text\<rparr>,
           \<lparr>property = js ''og:description'', content = description_text\<rparr>,
           \<lparr>property = js ''og:image'', content = imageUrl\<rparr>,
           \<lparr>property = js ''og:url'', content = pageUrl\<rparr>,
           \<lparr>property = js ''og:type'', content = type' DEFAULT_META\<rparr>,
           \<lparr>property = js ''og:site_name'', content = siteName DEFAULT_META\<rparr>,
           \<lparr>property = js ''twitter:card'', content = twitterCard DEFAULT_META\<rparr>,
           \<lparr>property = js ''twitter:title'', content = title_text\<rparr>,
           \<lparr>property = js ''twitter:description'', content = description_text\<rparr>,
           \<lparr>property = js ''twitter:image'', content = imageUrl\<rparr> ])"

section \<open>Orchestrator\<close>


section \<open>Observations\<close>

text \<open>The value a list of tag definitions gives to a key (the first one, if any).\<close>

definition tag_value :: "tag list \<Rightarrow> jsstring \<Rightarrow> jsstring option" where
  "tag_value tags k = map_option content (find (\<lambda>t. property t = k) tags)"

text \<open>
  The tag applier as the specification words it: search for an element with the key under
  \<open>property\<close>, if none under \<open>name\<close>; overwrite the content of the element found, else
  append a new element that carries the key under \<open>property\<close> when the key begins with \<open>og:\<close>
  and under \<open>name\<close> otherwise. It is compared with \<open>setMetaTag\<close> below.
\<close>

definition existing_tag :: "jsstring \<Rightarrow> document \<Rightarrow> nat option" where
  "existing_tag k doc =
     (case querySelector (meta_property k) doc of
        Some i \<Rightarrow> Some i
      | None \<Rightarrow> querySelector (meta_name k) doc)"

definition upsert :: "jsstring \<Rightarrow> jsstring \<Rightarrow> document \<Rightarrow> document" where
  "upsert k c doc =
     (case existing_tag k doc of
        Some i \<Rightarrow> doc[i := setAttribute Content c (doc ! i)]
      | None \<Rightarrow>
          doc @ [setAttribute Content c
                   (if startsWith k (js ''og:'') then setAttribute Property k createElement_meta
                    else setAttribute Name k createElement_meta)])"

definition upsert_all :: "tag list \<Rightarrow> document \<Rightarrow> document" where
  "upsert_all ts doc = fold (\<lambda>t. upsert (property t) (content t)) ts doc"

text \<open>
  A key that reads as itself between the quotes of a selector: no double quote, no
  backslash, no line break, no NUL and no surrogate.
\<close>

definition plain_unit :: "code_unit \<Rightarrow> bool" where
  "plain_unit c =
     (c \<noteq> 0x22 \<and> c \<noteq> 0x5C \<and> c \<noteq> 0xA \<and> c \<noteq> 0xC \<and> c \<noteq> 0xD \<and> c \<noteq> 0 \<and>
      \<not> (0xD800 \<le> c \<and> c \<le> 0xDFFF))"

definition plain_key :: "jsstring \<Rightarrow> bool" where
  "plain_key k = list_all plain_unit k"

text \<open>
  An element carries one key of a list when its \<open>property\<close> and its \<open>name\<close> are not two
  different keys of the list. Then no two keys of the list find the same element.
\<close>

definition carries_one_key :: "jsstring list \<Rightarrow> element \<Rightarrow> bool" where
  "carries_one_key ks e =
     (case attr_property e of
        None \<Rightarrow> True
      | Some a \<Rightarrow>
          (case attr_name e of
             None \<Rightarrow> True
           | Some b \<Rightarrow> a = b \<or> a \<notin> set ks \<or> b \<notin> set ks))"

section \<open>Facts about strings and defaults\<close>

lemma default_title_not_Nil: "title DEFAULT_META \<noteq> []"
  by (simp add: DEFAULT_META_def js_def)

lemma default_description_not_Nil: "description DEFAULT_META \<noteq> []"
  by (simp add: DEFAULT_META_def js_def)

lemma default_image_not_Nil: "image' DEFAULT_META \<noteq> []"
  by (simp add: DEFAULT_META_def js_def)

lemma trim_Nil_iff: "trim u = [] \<longleftrightarrow> (\<forall>c \<in> set u. is_white_space c)"
proof
  assume "trim u = []"
  then have all: "\<forall>c \<in> set (dropWhile is_white_space u). is_white_space c"
    by (simp add: trim_def)
  have "dropWhile is_white_space u = []"
  proof (rule ccontr)
    assume ne: "dropWhile is_white_space u \<noteq> []"
    then have "\<not> is_white_space (hd (dropWhile is_white_space u))"
      by (rule hd_dropWhile)
    with all ne show False by simp
  qed
  then show "\<forall>c \<in> set u. is_white_space c" by simp
next
  assume "\<forall>c \<in> set u. is_white_space c"
  then show "trim u = []" by (auto simp add: trim_def dest: set_dropWhileD)
qed

lemma startsWith_Cons: "startsWith u (c # p) \<Longrightarrow> \<exists>r. u = c # r"
  by (cases u) (auto simp: startsWith_def)

lemma absolute_not_blank:
  assumes "startsWith u (js ''http://'') \<or> startsWith u (js ''https://'')"
  shows "u \<noteq> [] \<and> trim u \<noteq> []"
proof -
  from assms obtain r where "u = of_char CHR ''h'' # r"
    by (auto simp: js_def dest!: startsWith_Cons)
  moreover have "\<not> is_white_space (of_char CHR ''h'')"
    by (simp add: is_white_space_def)
  ultimately show ?thesis by (auto simp: trim_Nil_iff)
qed

lemma digits_small: "n < 10 \<Longrightarrow> digits n = [of_nat (48 + n)]"
  by (simp add: digits.simps)

section \<open>The URL normalizer\<close>

lemma convert_absolute:
  "startsWith u (js ''http://'') \<or> startsWith u (js ''https://'') \<Longrightarrow>
   convertToAbsoluteURL (Some u) = u"
  using absolute_not_blank [of u] by (simp add: convertToAbsoluteURL_def)

lemma convert_slash:
  "convertToAbsoluteURL (Some (js ''/'' @ p)) = js ''https://zebzetoon.vercel.app/'' @ p"
proof -
  have "\<not> is_white_space (of_char CHR ''/'')"
    by (simp add: is_white_space_def)
  then have "trim (js ''/'' @ p) \<noteq> []"
    by (auto simp: trim_Nil_iff js_def)
  moreover have "\<not> startsWith (js ''/'' @ p) (js ''http://'')"
    and "\<not> startsWith (js ''/'' @ p) (js ''https://'')"
    by (simp_all add: startsWith_def js_def)
  moreover have "startsWith (js ''/'' @ p) (js ''/'')"
    by (simp add: startsWith_def js_def)
  ultimately show ?thesis
    by (simp add: convertToAbsoluteURL_def substring_def Let_def) (simp add: js_def)
qed

lemma convert_relative:
  "trim p \<noteq> [] \<Longrightarrow> \<not> startsWith p (js ''http://'') \<Longrightarrow> \<not> startsWith p (js ''https://'') \<Longrightarrow>
   \<not> startsWith p (js ''/'') \<Longrightarrow>
   convertToAbsoluteURL (Some p) = js ''https://zebzetoon.vercel.app/'' @ p"
  by (auto simp add: convertToAbsoluteURL_def Let_def trim_def)

lemma convert_not_Nil: "convertToAbsoluteURL url \<noteq> []"
proof (cases url)
  case None
  then show ?thesis by (simp add: convertToAbsoluteURL_def default_image_not_Nil)
next
  case (Some u)
  then show ?thesis
    by (auto simp add: convertToAbsoluteURL_def default_image_not_Nil Let_def js_def)
qed

text \<open>
  C4. The normalizer sends an absent input to the default image; it returns every string that
  begins with \<open>http://\<close> or \<open>https://\<close> as it is; a path with a leading \<open>/\<close> goes to the base
  followed by the path without that \<open>/\<close>; and so, for a relative path \<open>p\<close> written without a
  leading \<open>/\<close> (not blank, not absolute), \<open>/p\<close> and \<open>p\<close> have the same result, the base followed
  by \<open>p\<close>.
\<close>

theorem convertToAbsoluteURL_invariants:
  "convertToAbsoluteURL None = image' DEFAULT_META \<and>
   (\<forall>u. startsWith u (js ''http://'') \<or> startsWith u (js ''https://'') \<longrightarrow>
        convertToAbsoluteURL (Some u) = u) \<and>
   (\<forall>p. convertToAbsoluteURL (Some (js ''/'' @ p)) = js ''https://zebzetoon.vercel.app/'' @ p) \<and>
   (\<forall>p. trim p \<noteq> [] \<and> \<not> startsWith p (js ''http://'') \<and> \<not> startsWith p (js ''https://'')
          \<and> \<not> startsWith p (js ''/'') \<longrightarrow>
        convertToAbsoluteURL (Some (js ''/'' @ p)) = convertToAbsoluteURL (Some p) \<and>
        convertToAbsoluteURL (Some p) = js ''https://zebzetoon.vercel.app/'' @ p)"
proof -
  have "convertToAbsoluteURL None = image' DEFAULT_META"
    by (simp add: convertToAbsoluteURL_def)
  then show ?thesis
    by (simp add: convert_absolute convert_slash convert_relative)
qed

theorem convertToAbsoluteURL_invariants_witness:
  "startsWith (js ''https://x/y'') (js ''https://'') \<and>
   convertToAbsoluteURL (Some (js ''https://x/y'')) = js ''https://x/y'' \<and>
   trim (js ''a/b'') \<noteq> [] \<and> \<not> startsWith (js ''a/b'') (js ''http://'') \<and>
   \<not> startsWith (js ''a/b'') (js ''https://'') \<and> \<not> startsWith (js ''a/b'') (js ''/'') \<and>
   convertToAbsoluteURL (Some (js ''/a/b'')) = convertToAbsoluteURL (Some (js ''a/b'')) \<and>
   convertToAbsoluteURL (Some (js ''a/b'')) = js ''https://zebzetoon.vercel.app/a/b''"
proof -
  have abs: "startsWith (js ''https://x/y'') (js ''https://'')"
    by (simp add: startsWith_def js_def)
  have rel: "trim (js ''a/b'') \<noteq> [] \<and> \<not> startsWith (js ''a/b'') (js ''http://'') \<and>
      \<not> startsWith (js ''a/b'') (js ''https://'') \<and> \<not> startsWith (js ''a/b'') (js ''/'')"
    by (simp add: trim_def startsWith_def js_def is_white_space_def)
  have all: "\<forall>p. trim p \<noteq> [] \<and> \<not> startsWith p (js ''http://'') \<and> \<not> startsWith p (js ''https://'')
          \<and> \<not> startsWith p (js ''/'') \<longrightarrow>
        convertToAbsoluteURL (Some (js ''/'' @ p)) = convertToAbsoluteURL (Some p) \<and>
        convertToAbsoluteURL (Some p) = js ''https://zebzetoon.vercel.app/'' @ p"
    and absolute: "\<forall>u. startsWith u (js ''http://'') \<or> startsWith u (js ''https://'') \<longrightarrow>
        convertToAbsoluteURL (Some u) = u"
    using convertToAbsoluteURL_invariants by blast+
  from absolute abs have "convertToAbsoluteURL (Some (js ''https://x/y'')) = js ''https://x/y''"
    by blast
  moreover from all rel
  have "convertToAbsoluteURL (Some (js ''/'' @ js ''a/b'')) = convertToAbsoluteURL (Some (js ''a/b'')) \<and>
      convertToAbsoluteURL (Some (js ''a/b'')) = js ''https://zebzetoon.vercel.app/'' @ js ''a/b''"
    by blast
  moreover have "js ''/'' @ js ''a/b'' = js ''/a/b''"
    and "js ''https://zebzetoon.vercel.app/'' @ js ''a/b'' = js ''https://zebzetoon.vercel.app/a/b''"
    by (simp_all add: js_def)
  ultimately show ?thesis using abs rel by simp
qed

text \<open>
  C8. The normalizer is a total function on possibly absent strings (no step of it can raise
  on a string), and the string it returns is never empty.
\<close>

theorem convertToAbsoluteURL_total: "convertToAbsoluteURL url \<noteq> []"
  by (rule convert_not_Nil)

section \<open>The content synthesizer\<close>

lemma truthy_seri_text: "truthy s \<Longrightarrow> seri_text s \<noteq> []"
  by (cases s) simp_all

lemma description_text_not_Nil:
  "(case sd of
      None \<Rightarrow> description DEFAULT_META
    | Some d \<Rightarrow>
        (case ozet d of
           None \<Rightarrow> description DEFAULT_META
         | Some s \<Rightarrow> if s \<noteq> [] then s else description DEFAULT_META)) \<noteq> []"
  by (simp add: default_description_not_Nil split: option.splits)

lemma imageUrl_not_Nil:
  "(case sd of
      None \<Rightarrow> image' DEFAULT_META
    | Some d \<Rightarrow>
        if truthy (kapak d) then convertToAbsoluteURL (kapak d) else image' DEFAULT_META) \<noteq> []"
  by (simp add: default_image_not_Nil convert_not_Nil split: option.splits)

lemma og_title_value:
  "tag_value (generateOpenGraphContent g p sd) (js ''og:title'') =
     Some (if truthy (seri p) \<and> bolum p \<noteq> None
           then seri_text (seri p) @ js '' - B'' @ [0xF6] @ js ''l'' @ [0xFC] @ js ''m ''
                  @ bolum_text g (bolum p)
           else if truthy (seri p) then seri_text (seri p)
           else title DEFAULT_META)"
  by (simp add: generateOpenGraphContent_def Let_def tag_value_def)

text \<open>
  C1. For all parameters and every result of the catalog lookup, the synthesizer returns ten
  tag definitions, with the ten keys in their fixed order, and the values of the title, the
  description and the image (the first three) are not empty.
\<close>

theorem generateOpenGraphContent_ten_tags:
  "length (generateOpenGraphContent g p sd) = 10 \<and>
   map property (generateOpenGraphContent g p sd) =
     [js ''og:title'', js ''og:description'', js ''og:image'', js ''og:url'', js ''og:type'',
      js ''og:site_name'', js ''twitter:card'', js ''twitter:title'', js ''twitter:description'',
      js ''twitter:image''] \<and>
   content (generateOpenGraphContent g p sd ! 0) \<noteq> [] \<and>
   content (generateOpenGraphContent g p sd ! 1) \<noteq> [] \<and>
   content (generateOpenGraphContent g p sd ! 2) \<noteq> []"
  using description_text_not_Nil [of sd] imageUrl_not_Nil [of sd]
  by (simp add: generateOpenGraphContent_def Let_def truthy_seri_text default_title_not_Nil)

text \<open>
  C2. The title has three branches. With a series and a chapter that is not \<open>null\<close>, it is
  the series, the separator and the chapter as text; with a series and no chapter it is the
  series; without a series it is the default title. A series is a string that is not empty:
  the extractor returns no other one (\<open>parseURLParameters_seri_not_empty\<close> below), and the
  empty string counts as no series. For the series of the example and chapter 8 the title
  ends in \<open>8\<close>; without the chapter it is the series.
\<close>

theorem title_branches:
  "(\<forall>s b. s \<noteq> [] \<longrightarrow>
      tag_value (generateOpenGraphContent g \<lparr>seri = Some s, bolum = Some b\<rparr> sd) (js ''og:title'')
        = Some (s @ js '' - B'' @ [0xF6] @ js ''l'' @ [0xFC] @ js ''m '' @ NumberToString g b)) \<and>
   (\<forall>s. s \<noteq> [] \<longrightarrow>
      tag_value (generateOpenGraphContent g \<lparr>seri = Some s, bolum = None\<rparr> sd) (js ''og:title'')
        = Some s) \<and>
   (\<forall>b. tag_value (generateOpenGraphContent g \<lparr>seri = None, bolum = b\<rparr> sd) (js ''og:title'')
        = Some (title DEFAULT_META)) \<and>
   (\<forall>b. tag_value (generateOpenGraphContent g \<lparr>seri = Some [], bolum = b\<rparr> sd) (js ''og:title'')
        = Some (title DEFAULT_META)) \<and>
   tag_value (generateOpenGraphContent g
       \<lparr>seri = Some ([0xD6] @ js ''l'' @ [0xFC] @ js ''m Pakt'' @ [0x131]),
        bolum = Some (Integer 8)\<rparr> sd) (js ''og:title'')
     = Some ([0xD6] @ js ''l'' @ [0xFC] @ js ''m Pakt'' @ [0x131] @ js '' - B'' @ [0xF6]
             @ js ''l'' @ [0xFC] @ js ''m 8'') \<and>
   tag_value (generateOpenGraphContent g
       \<lparr>seri = Some ([0xD6] @ js ''l'' @ [0xFC] @ js ''m Pakt'' @ [0x131]), bolum = None\<rparr> sd)
       (js ''og:title'')
     = Some ([0xD6] @ js ''l'' @ [0xFC] @ js ''m Pakt'' @ [0x131])"
  by (simp add: og_title_value digits_small) (simp add: js_def)

theorem title_branches_witness:
  "js ''Naruto'' \<noteq> [] \<and>
   tag_value (generateOpenGraphContent
       \<lparr>location_search = [], location_href = [], ARSIV = Some Undefined, number_text = (\<lambda>n. [])\<rparr>
       \<lparr>seri = Some (js ''Naruto''), bolum = Some (Integer 12)\<rparr> None) (js ''og:title'')
     = Some (js ''Naruto - B'' @ [0xF6] @ js ''l'' @ [0xFC] @ js ''m 12'') \<and>
   tag_value (generateOpenGraphContent
       \<lparr>location_search = [], location_href = [], ARSIV = Some Undefined, number_text = (\<lambda>n. [])\<rparr>
       \<lparr>seri = Some (js ''Naruto''), bolum = None\<rparr> None) (js ''og:title'')
     = Some (js ''Naruto'')"
proof -
  let ?g = "\<lparr>location_search = [], location_href = [], ARSIV = Some Undefined, number_text = (\<lambda>n. [])\<rparr>"
  have ne: "js ''Naruto'' \<noteq> []" by (simp add: js_def)
  have num: "NumberToString ?g (Integer 12) = js ''12''"
    by (simp add: digits.simps) (simp add: js_def)
  from title_branches [of ?g None] ne
  have "tag_value (generateOpenGraphContent ?g \<lparr>seri = Some (js ''Naruto''), bolum = Some (Integer 12)\<rparr> None)
          (js ''og:title'')
        = Some (js ''Naruto'' @ js '' - B'' @ [0xF6] @ js ''l'' @ [0xFC] @ js ''m '' @ NumberToString ?g (Integer 12))"
    and "tag_value (generateOpenGraphContent ?g \<lparr>seri = Some (js ''Naruto''), bolum = None\<rparr> None)
          (js ''og:title'') = Some (js ''Naruto'')"
    by blast+
  with ne num show ?thesis by (simp add: js_def)
qed

text \<open>
  C5. In every list the synthesizer returns, the three Twitter values are the Open Graph
  values: title, description and image.
\<close>

theorem twitter_mirrors_open_graph:
  "tag_value (generateOpenGraphContent g p sd) (js ''twitter:title'')
     = tag_value (generateOpenGraphContent g p sd) (js ''og:title'') \<and>
   tag_value (generateOpenGraphContent g p sd) (js ''twitter:description'')
     = tag_value (generateOpenGraphContent g p sd) (js ''og:description'') \<and>
   tag_value (generateOpenGraphContent g p sd) (js ''twitter:image'')
     = tag_value (generateOpenGraphContent g p sd) (js ''og:image'') \<and>
   tag_value (generateOpenGraphContent g p sd) (js ''og:title'') \<noteq> None \<and>
   tag_value (generateOpenGraphContent g p sd) (js ''og:description'') \<noteq> None \<and>
   tag_value (generateOpenGraphContent g p sd) (js ''og:image'') \<noteq> None"
  by (simp add: generateOpenGraphContent_def Let_def tag_value_def js_def)

text \<open>
  C10. The chapter is compared with \<open>null\<close>, not tested for truth: with a series, every
  integer chapter takes the first branch of the title, and chapter 0 gives a title that ends
  in \<open>0\<close>, not the bare series.
\<close>

theorem chapter_compared_with_null:
  "(\<forall>s n. s \<noteq> [] \<longrightarrow>
      tag_value (generateOpenGraphContent g \<lparr>seri = Some s, bolum = Some (Integer n)\<rparr> sd)
          (js ''og:title'')
        = Some (s @ js '' - B'' @ [0xF6] @ js ''l'' @ [0xFC] @ js ''m ''
                  @ NumberToString g (Integer n))) \<and>
   (\<forall>s. s \<noteq> [] \<longrightarrow>
      tag_value (generateOpenGraphContent g \<lparr>seri = Some s, bolum = Some (Integer 0)\<rparr> sd)
          (js ''og:title'')
        = Some (s @ js '' - B'' @ [0xF6] @ js ''l'' @ [0xFC] @ js ''m 0'') \<and>
      tag_value (generateOpenGraphContent g \<lparr>seri = Some s, bolum = Some (Integer 0)\<rparr> sd)
          (js ''og:title'')
        \<noteq> Some s)"
  by (simp add: og_title_value digits_small) (simp add: js_def)

theorem chapter_compared_with_null_witness:
  "js ''Naruto'' \<noteq> [] \<and>
   tag_value (generateOpenGraphContent
       \<lparr>location_search = [], location_href = [], ARSIV = Some Undefined, number_text = (\<lambda>n. [])\<rparr>
       \<lparr>seri = Some (js ''Naruto''), bolum = Some (Integer 0)\<rparr> None) (js ''og:title'')
     = Some (js ''Naruto - B'' @ [0xF6] @ js ''l'' @ [0xFC] @ js ''m 0'') \<and>
   tag_value (generateOpenGraphContent
       \<lparr>location_search = [], location_href = [], ARSIV = Some Undefined, number_text = (\<lambda>n. [])\<rparr>
       \<lparr>seri = Some (js ''Naruto''), bolum = Some (Integer (- 3))\<rparr> None) (js ''og:title'')
     = Some (js ''Naruto - B'' @ [0xF6] @ js ''l'' @ [0xFC] @ js ''m -3'')"
proof -
  let ?g = "\<lparr>location_search = [], location_href = [], ARSIV = Some Undefined, number_text = (\<lambda>n. [])\<rparr>"
  have ne: "js ''Naruto'' \<noteq> []" by (simp add: js_def)
  have num: "NumberToString ?g (Integer (- 3)) = js ''-3''"
    by (simp add: digits.simps) (simp add: js_def)
  from chapter_compared_with_null [of ?g None] ne
  have "tag_value (generateOpenGraphContent ?g \<lparr>seri = Some (js ''Naruto''), bolum = Some (Integer 0)\<rparr> None)
          (js ''og:title'')
        = Some (js ''Naruto'' @ js '' - B'' @ [0xF6] @ js ''l'' @ [0xFC] @ js ''m 0'')"
    and "tag_value (generateOpenGraphContent ?g \<lparr>seri = Some (js ''Naruto''), bolum = Some (Integer (- 3))\<rparr> None)
          (js ''og:title'')
        = Some (js ''Naruto'' @ js '' - B'' @ [0xF6] @ js ''l'' @ [0xFC] @ js ''m '' @ NumberToString ?g (Integer (- 3)))"
    by blast+
  with ne num show ?thesis by (simp add: js_def)
qed

section \<open>The catalog resolver\<close>

lemma typeof_object_iff: "ToBoolean A \<and> typeof A = js ''object'' \<longleftrightarrow> (\<exists>ps. A = Object ps)"
  by (cases A) (simp_all add: js_def)

lemma getSeriesData_Object:
  "getSeriesData (Some (Object ps)) k =
     Inr (case map_of ps k of None \<Rightarrow> None | Some s \<Rightarrow> meta s)"
  by (cases ps) (auto simp: getSeriesData_def split: option.splits)

lemma getSeriesData_not_Object: "(\<And>ps. A \<noteq> Object ps) \<Longrightarrow> getSeriesData (Some A) k = Inr None"
  using typeof_object_iff [of A] by (auto simp: getSeriesData_def)

lemma getSeriesData_declared:
  "(getSeriesData (Some A) k = Inr None \<longleftrightarrow>
      (\<forall>ps. A = Object ps \<longrightarrow> ps = []) \<or> property_of A k = None \<or>
      (\<exists>s. property_of A k = Some s \<and> meta s = None)) \<and>
   (\<forall>s m. property_of A k = Some s \<and> meta s = Some m \<longrightarrow> getSeriesData (Some A) k = Inr (Some m)) \<and>
   (\<forall>e. getSeriesData (Some A) k \<noteq> Inl e)"
proof (cases "\<exists>ps. A = Object ps")
  case True
  then obtain ps where A: "A = Object ps" ..
  show ?thesis
    unfolding A getSeriesData_Object by (cases "map_of ps k") auto
next
  case False
  then have "getSeriesData (Some A) k = Inr None"
    by (simp add: getSeriesData_not_Object)
  moreover have "property_of A k = None"
    using False by (cases A) simp_all
  ultimately show ?thesis using False by simp
qed

text \<open>
  C6. For a declared catalog the resolver returns \<open>null\<close> or the \<open>meta\<close> of the entry, as
  \<open>getSeriesData_declared\<close> says. But when no script has declared \<open>ARSIV\<close> (the catalog that is
  not there at all) it does not return \<open>null\<close>: its first test reads the variable and
  throws ReferenceError. A declared variable that holds \<open>undefined\<close>, or an object without
  entries, gives \<open>null\<close>.
\<close>

theorem getSeriesData_undeclared_throws:
  "getSeriesData None k = Inl ReferenceError \<and>
   getSeriesData (Some Undefined) k = Inr None \<and>
   getSeriesData (Some (Object [])) k = Inr None"
  by (simp add: getSeriesData_def js_def)

theorem getSeriesData_undeclared_throws_witness:
  "getSeriesData None (js ''Naruto'') = Inl ReferenceError \<and>
   getSeriesData (Some Undefined) (js ''Naruto'') = Inr None"
  using getSeriesData_undeclared_throws [of "js ''Naruto''"] by simp

section \<open>The tag applier as specified\<close>

lemma matches_setAttribute_Content [simp]:
  "matches sel (setAttribute Content c e) = matches sel e"
  by (cases sel) simp_all

lemma setAttribute_Content_twice [simp]:
  "setAttribute Content a (setAttribute Content c e) = setAttribute Content a e"
  by simp

declare setAttribute.simps [simp del]

lemma querySelector_bound: "querySelector sel d = Some i \<Longrightarrow> i < length d"
  by (induction d arbitrary: i) (auto split: if_splits)

lemma querySelector_update:
  "querySelector sel (d[i := setAttribute Content c (d ! i)]) = querySelector sel d"
proof (induction d arbitrary: i)
  case Nil
  then show ?case by simp
next
  case (Cons e es)
  then show ?case by (cases i) simp_all
qed

lemma querySelector_append:
  "querySelector sel (d @ es) =
     (case querySelector sel d of
        Some i \<Rightarrow> Some i
      | None \<Rightarrow> map_option (\<lambda>j. length d + j) (querySelector sel es))"
proof (induction d)
  case Nil
  then show ?case by (cases "querySelector sel es") simp_all
next
  case (Cons e d)
  then show ?case
    by (cases "querySelector sel d"; cases "querySelector sel es") simp_all
qed

lemma existing_tag_bound: "existing_tag k d = Some i \<Longrightarrow> i < length d"
  by (auto simp: existing_tag_def split: option.splits dest: querySelector_bound)

lemma existing_tag_update:
  "existing_tag k (d[i := setAttribute Content c (d ! i)]) = existing_tag k d"
  by (simp add: existing_tag_def querySelector_update cong: option.case_cong)

lemma upsert_existing:
  "existing_tag k d = Some i \<Longrightarrow> upsert k c d = d[i := setAttribute Content c (d ! i)]"
  by (simp add: upsert_def)

lemma upsert_new:
  "existing_tag k d = None \<Longrightarrow>
   upsert k c d =
     d @ [setAttribute Content c
            (if startsWith k (js ''og:'') then setAttribute Property k createElement_meta
             else setAttribute Name k createElement_meta)]"
  by (simp add: upsert_def)

lemma existing_tag_append_other:
  assumes "existing_tag k d = Some i" and "existing_tag k' d = None"
  shows "existing_tag k
           (d @ [setAttribute Content c
                   (if startsWith k' (js ''og:'') then setAttribute Property k' createElement_meta
                    else setAttribute Name k' createElement_meta)]) = Some i"
proof -
  from assms have "k \<noteq> k'" by auto
  with assms(1) show ?thesis
    by (auto simp: existing_tag_def querySelector_append createElement_meta_def setAttribute.simps
        split: option.splits)
qed

lemma existing_tag_append_self:
  assumes "existing_tag k d = None"
  shows "existing_tag k
           (d @ [setAttribute Content c
                   (if startsWith k (js ''og:'') then setAttribute Property k createElement_meta
                    else setAttribute Name k createElement_meta)]) = Some (length d)"
  using assms
  by (auto simp: existing_tag_def querySelector_append createElement_meta_def setAttribute.simps
      split: option.splits)

lemma existing_tag_stable:
  assumes "existing_tag k d = Some i"
  shows "existing_tag k (upsert k' c d) = Some i"
proof (cases "existing_tag k' d")
  case None
  with assms show ?thesis
    by (simp add: upsert_new existing_tag_append_other)
next
  case (Some j)
  with assms show ?thesis
    by (simp add: upsert_existing existing_tag_update)
qed

lemma existing_tag_after: "\<exists>i. existing_tag k (upsert k c d) = Some i"
proof (cases "existing_tag k d")
  case None
  then show ?thesis by (simp add: upsert_new existing_tag_append_self)
next
  case (Some j)
  then show ?thesis by (simp add: upsert_existing existing_tag_update)
qed

lemma upsert_twice: "upsert k c (upsert k c d) = upsert k c d"
proof -
  obtain i where i: "existing_tag k (upsert k c d) = Some i"
    using existing_tag_after by blast
  show ?thesis
  proof (cases "existing_tag k d")
    case None
    with i have "i = length d"
      by (simp add: upsert_new existing_tag_append_self)
    with i None show ?thesis
      by (simp add: upsert_existing) (simp add: upsert_new)
  next
    case (Some j)
    then have "existing_tag k (upsert k c d) = Some j"
      by (rule existing_tag_stable)
    with Some show ?thesis
      using existing_tag_bound [OF Some]
      by (simp add: upsert_existing)
  qed
qed

lemma upsert_overwrite:
  assumes "existing_tag k d = Some j" and "existing_tag k' d = Some j"
  shows "upsert k' a (upsert k c d) = upsert k' a d"
proof -
  have "existing_tag k' (upsert k c d) = Some j"
    using assms(2) by (rule existing_tag_stable)
  then show ?thesis
    using assms existing_tag_bound [OF assms(1)]
    by (simp add: upsert_existing)
qed

lemma upsert_commute:
  assumes "existing_tag k d = Some j" and "existing_tag k' d \<noteq> Some j"
  shows "upsert k' a (upsert k c d) = upsert k c (upsert k' a d)"
proof (cases "existing_tag k' d")
  case None
  have k: "existing_tag k (upsert k' a d) = Some j"
    using assms(1) by (rule existing_tag_stable)
  have "existing_tag k' (upsert k c d) = None"
    using None assms(1) by (simp add: upsert_existing existing_tag_update)
  then have "upsert k' a (upsert k c d) =
      upsert k c d @ [setAttribute Content a
            (if startsWith k' (js ''og:'') then setAttribute Property k' createElement_meta
             else setAttribute Name k' createElement_meta)]"
    by (rule upsert_new)
  moreover have "upsert k c (upsert k' a d) =
      (upsert k' a d)[j := setAttribute Content c (upsert k' a d ! j)]"
    using k by (rule upsert_existing)
  ultimately show ?thesis
    using None assms(1) existing_tag_bound [OF assms(1)]
    by (simp add: upsert_existing upsert_new list_update_append nth_append)
next
  case (Some j')
  have k: "existing_tag k (upsert k' a d) = Some j"
    using assms(1) by (rule existing_tag_stable)
  have k': "existing_tag k' (upsert k c d) = Some j'"
    using Some by (rule existing_tag_stable)
  from Some assms(2) have "j' \<noteq> j" by simp
  then show ?thesis
    using Some assms(1) k k' existing_tag_bound [OF assms(1)] existing_tag_bound [OF Some]
    by (simp add: upsert_existing list_update_swap)
qed

lemma upsert_all_Cons:
  "upsert_all (t # ts) d = upsert_all ts (upsert (property t) (content t) d)"
  by (simp add: upsert_all_def)

lemma upsert_all_snoc:
  "upsert_all (ts @ [t]) d = upsert (property t) (content t) (upsert_all ts d)"
  by (simp add: upsert_all_def)

lemma upsert_all_Nil: "upsert_all [] d = d"
  by (simp add: upsert_all_def)

lemma upsert_all_absorb:
  assumes "existing_tag k d = Some j"
  shows "upsert k c (upsert_all ts (upsert k c d)) = upsert k c (upsert_all ts d)"
  using assms
proof (induction ts arbitrary: d)
  case Nil
  then show ?case by (simp add: upsert_all_Nil upsert_twice)
next
  case (Cons t ts)
  let ?y = "upsert (property t) (content t)"
  show ?case
  proof (cases "existing_tag (property t) d = Some j")
    case True
    with Cons.prems have "?y (upsert k c d) = ?y d"
      by (simp add: upsert_overwrite)
    then show ?thesis by (simp add: upsert_all_Cons)
  next
    case False
    with Cons.prems have "?y (upsert k c d) = upsert k c (?y d)"
      by (simp add: upsert_commute)
    moreover have "existing_tag k (?y d) = Some j"
      using Cons.prems by (rule existing_tag_stable)
    ultimately show ?thesis
      using Cons.IH [of "?y d"] by (simp add: upsert_all_Cons)
  qed
qed

lemma existing_tag_upsert_all:
  "existing_tag k d = Some i \<Longrightarrow> existing_tag k (upsert_all ts d) = Some i"
  by (induction ts arbitrary: d) (simp_all add: upsert_all_Nil upsert_all_Cons existing_tag_stable)

lemma upsert_all_resolves:
  "t \<in> set ts \<Longrightarrow> \<exists>i. existing_tag (property t) (upsert_all ts d) = Some i"
proof (induction ts arbitrary: d)
  case Nil
  then show ?case by simp
next
  case (Cons u ts)
  show ?case
  proof (cases "t = u")
    case True
    obtain i where "existing_tag (property t) (upsert (property t) (content t) d) = Some i"
      using existing_tag_after by blast
    then show ?thesis
      using True by (auto simp: upsert_all_Cons intro: existing_tag_upsert_all)
  next
    case False
    with Cons show ?thesis by (simp add: upsert_all_Cons)
  qed
qed

lemma upsert_append_new:
  assumes "existing_tag k d = Some i" and "existing_tag k' d = None"
  shows "upsert k c
           (d @ [setAttribute Content c'
                   (if startsWith k' (js ''og:'') then setAttribute Property k' createElement_meta
                    else setAttribute Name k' createElement_meta)]) =
         upsert k c d @
           [setAttribute Content c'
              (if startsWith k' (js ''og:'') then setAttribute Property k' createElement_meta
               else setAttribute Name k' createElement_meta)]"
  using assms existing_tag_append_other [OF assms, of c'] existing_tag_bound [OF assms(1)]
  by (simp add: upsert_existing list_update_append nth_append)

lemma upsert_all_append_new:
  assumes "\<And>t. t \<in> set ts \<Longrightarrow> \<exists>i. existing_tag (property t) d = Some i"
    and "existing_tag k' d = None"
  shows "upsert_all ts
           (d @ [setAttribute Content c'
                   (if startsWith k' (js ''og:'') then setAttribute Property k' createElement_meta
                    else setAttribute Name k' createElement_meta)]) =
         upsert_all ts d @
           [setAttribute Content c'
              (if startsWith k' (js ''og:'') then setAttribute Property k' createElement_meta
               else setAttribute Name k' createElement_meta)]"
  using assms
proof (induction ts arbitrary: d)
  case Nil
  then show ?case by (simp add: upsert_all_Nil)
next
  case (Cons u ts)
  let ?d = "upsert (property u) (content u) d"
  obtain i where i: "existing_tag (property u) d = Some i"
    using Cons.prems(1) [of u] by auto
  have "\<exists>i. existing_tag (property t) ?d = Some i" if "t \<in> set ts" for t
    using Cons.prems(1) [of t] that by (auto intro: existing_tag_stable)
  moreover have "existing_tag k' ?d = None"
    using i Cons.prems(2) by (simp add: upsert_existing existing_tag_update)
  ultimately show ?case
    using Cons.IH [of ?d] i Cons.prems(2)
    by (simp add: upsert_all_Cons upsert_append_new)
qed

lemma upsert_all_idem: "upsert_all ts (upsert_all ts d) = upsert_all ts d"
proof (induction ts arbitrary: d rule: rev_induct)
  case Nil
  then show ?case by (simp add: upsert_all_Nil)
next
  case (snoc t ts)
  let ?x = "upsert (property t) (content t)"
  let ?d1 = "upsert_all ts d"
  have fixed: "upsert_all ts ?d1 = ?d1" by (rule snoc.IH)
  have "?x (upsert_all ts (?x ?d1)) = ?x ?d1"
  proof (cases "existing_tag (property t) ?d1")
    case (Some j)
    then have "?x (upsert_all ts (?x ?d1)) = ?x (upsert_all ts ?d1)"
      by (rule upsert_all_absorb)
    with fixed show ?thesis by simp
  next
    case None
    let ?e = "setAttribute Content (content t)
        (if startsWith (property t) (js ''og:'')
         then setAttribute Property (property t) createElement_meta
         else setAttribute Name (property t) createElement_meta)"
    from None have e: "?x ?d1 = ?d1 @ [?e]"
      by (rule upsert_new)
    have "upsert_all ts (?d1 @ [?e]) = upsert_all ts ?d1 @ [?e]"
      using None by (intro upsert_all_append_new upsert_all_resolves)
    with fixed e have "upsert_all ts (?x ?d1) = ?x ?d1" by simp
    then show ?thesis by (simp add: upsert_twice)
  qed
  then show ?case by (simp add: upsert_all_snoc)
qed




lemma carries_one_key_setAttribute_Content [simp]:
  "carries_one_key ks (setAttribute Content c e) = carries_one_key ks e"
  by (cases "attr_property e"; cases "attr_name e") (simp_all add: carries_one_key_def setAttribute.simps)






section \<open>The tag applier\<close>

lemma plain_unit_no_surrogate: "plain_unit c \<Longrightarrow> c \<noteq> 0 \<and> \<not> is_lead c \<and> \<not> is_trail c"
  by (auto simp: plain_unit_def is_lead_def is_trail_def word_le_nat_alt)

lemma input_code_point_plain:
  "plain_unit c \<Longrightarrow> input_code_point (c # cs) = ([c], cs)"
  using plain_unit_no_surrogate [of c] by (cases cs) simp_all

lemma consume_string_plain:
  "plain_key k \<Longrightarrow>
   consume_string (k @ r) =
     (case consume_string r of None \<Rightarrow> None | Some (v, rest) \<Rightarrow> Some (k @ v, rest))"
proof (induction k)
  case Nil
  then show ?case by (simp split: option.splits)
next
  case (Cons c k)
  then have c: "plain_unit c" and k: "plain_key k"
    by (simp_all add: plain_key_def)
  from c have "c \<noteq> 0x22" "\<not> is_newline c" "c \<noteq> 0x5C"
    by (simp_all add: plain_unit_def is_newline_def)
  then show ?case
    using Cons.IH [OF k] input_code_point_plain [OF c, of "k @ r"]
    by (simp split: option.splits)
qed

lemma selector_string_plain: "plain_key k \<Longrightarrow> selector_string k = Inr k"
  by (simp add: selector_string_def consume_string_plain)

lemma setMetaTag_plain: "plain_key k \<Longrightarrow> setMetaTag k c d = Inr (upsert k c d)"
  by (simp add: setMetaTag_def selector_string_plain upsert_def existing_tag_def
      split: option.splits)

lemma setMetaTags_plain:
  "list_all (\<lambda>t. plain_key (property t)) ts \<Longrightarrow> setMetaTags ts d = (Returned, upsert_all ts d)"
  by (induction ts arbitrary: d) (simp_all add: setMetaTag_plain upsert_all_Nil upsert_all_Cons)

lemma setMetaTags_plain_idempotent:
  assumes "list_all (\<lambda>t. plain_key (property t)) ts"
  shows "setMetaTags ts (snd (setMetaTags ts d)) = setMetaTags ts d"
  using assms by (simp add: setMetaTags_plain upsert_all_idem)

lemma setMetaTag_og_title_in_place:
  assumes "querySelector (meta_property (js ''og:title'')) d = Some i"
  shows "setMetaTag (js ''og:title'') c d = Inr (d[i := setAttribute Content c (d ! i)])"
proof -
  have "plain_key (js ''og:title'')"
    by (simp add: plain_key_def plain_unit_def js_def)
  moreover from assms have "existing_tag (js ''og:title'') d = Some i"
    by (simp add: existing_tag_def)
  ultimately show ?thesis
    by (simp add: setMetaTag_plain upsert_existing)
qed


section \<open>The parameter extractor\<close>

lemmas platform_defs =
  URLSearchParams_def urlencoded_pair_def urlencoded_string_def utf8_decode_without_BOM_def
  utf8_encode_def utf8_encode_scalar_def UTF16EncodeCodePoint_def is_lead_def is_trail_def
  hex_digit_def leading_ones_def decodeURIComponent_def parseInt10_def is_white_space_def
  is_digit_def digits_value_def URLSearchParams_get_def js_def Let_def

lemma Decode_not_Nil: "Decode s = Inr r \<Longrightarrow> s \<noteq> [] \<Longrightarrow> r \<noteq> []"
  by (cases s)
    (auto simp: UTF16EncodeCodePoint_def split: if_splits sum.splits option.splits prod.splits)

lemma parseURLParameters_seri_not_empty:
  "parseURLParameters g = Inr p \<Longrightarrow> seri p \<noteq> Some []"
  by (auto simp: parseURLParameters_def Let_def decodeURIComponent_def map_sum_def
      split: option.splits if_splits sum.splits dest: Decode_not_Nil)

lemma parseURLParameters_returned:
  assumes "parseURLParameters g = Inr p"
  shows "(seri p = None \<longleftrightarrow>
            \<not> truthy (URLSearchParams_get (URLSearchParams (location_search g)) (js ''seri''))) \<and>
         (\<forall>v. URLSearchParams_get (URLSearchParams (location_search g)) (js ''seri'') = Some v \<and> v \<noteq> []
            \<longrightarrow> decodeURIComponent v = Inr (seri_text (seri p))) \<and>
         (bolum p = None \<longleftrightarrow>
            \<not> truthy (URLSearchParams_get (URLSearchParams (location_search g)) (js ''bolum''))) \<and>
         (\<forall>v. URLSearchParams_get (URLSearchParams (location_search g)) (js ''bolum'') = Some v \<and> v \<noteq> []
            \<longrightarrow> bolum p = Some (parseInt10 v))"
  using assms
  by (auto simp: parseURLParameters_def Let_def map_sum_def
      split: option.splits if_splits sum.splits)

text \<open>
  C7. The extractor percent-decodes the value of \<open>seri\<close> a second time: \<open>URLSearchParams\<close> has
  decoded it already when \<open>decodeURIComponent\<close> reads it. For the query \<open>?seri=100%25\<close> the
  value of the key is \<open>100%\<close>, and the extractor throws URIError; for \<open>?seri=%2541\<close> the value
  of the key is \<open>%41\<close>, and the extractor returns \<open>A\<close>.
\<close>

theorem parseURLParameters_decodes_twice:
  "URLSearchParams_get (URLSearchParams (js ''?seri=100%25'')) (js ''seri'') = Some (js ''100%'') \<and>
   parseURLParameters (g\<lparr>location_search := js ''?seri=100%25''\<rparr>) = Inl URIError \<and>
   URLSearchParams_get (URLSearchParams (js ''?seri=%2541&bolum=7'')) (js ''seri'') = Some (js ''%41'') \<and>
   parseURLParameters (g\<lparr>location_search := js ''?seri=%2541&bolum=7''\<rparr>)
     = Inr \<lparr>seri = Some (js ''A''), bolum = Some (Integer 7)\<rparr>"
  by (simp add: parseURLParameters_def platform_defs)

lemma parseURLParameters_example:
  "parseURLParameters (g\<lparr>location_search := js ''?seri=%C3%96l%C3%BCm%20Pakt%C4%B1&bolum=8''\<rparr>)
     = Inr \<lparr>seri = Some ([0xD6] @ js ''l'' @ [0xFC] @ js ''m Pakt'' @ [0x131]),
            bolum = Some (Integer 8)\<rparr>"
  by (simp add: parseURLParameters_def platform_defs)

section \<open>The orchestrator\<close>








end
